theory Spec2Isabelle
  imports Main "HOL-Library.Word"
begin

unbundle bit_operations_syntax

section \<open>The one-wire bus of \<open>lib/onewire/onewire.cpp\<close>\<close>

text \<open>
  The target is an 8-bit AVR: \<open>uint8_t\<close> is an \<open>8 word\<close>, \<open>unsigned long\<close> and
  \<open>uint32_t\<close> are \<open>32 word\<close>, and \<open>int32_t\<close> is a \<open>32 word\<close> read with \<open>sint\<close>.
  Arithmetic on words wraps as the C arithmetic on unsigned types does.
\<close>

type_synonym u8 = "8 word"
type_synonym u32 = "32 word"
type_synonym i32 = "32 word"

subsection \<open>Timing constants (lines 10 to 13)\<close>

text \<open>
  The four constants are \<open>const uint8_t\<close>. C promotes them to \<open>int\<close> wherever
  they occur in an expression (\<open>3 * pulsePeriod\<close>, \<open>bitPeriod - pulsePeriod\<close>,
  \<open>bitCount == addressWidth\<close>), so they are numbers here and are converted to a
  word where the source converts them.
\<close>

definition bitPeriod :: nat where
  "bitPeriod = 80"

definition pulsePeriod :: nat where
  "pulsePeriod = 25"

definition addressWidth :: nat where
  "addressWidth = 4"

definition dataWidth :: nat where
  "dataWidth = 24"

subsection \<open>State and effects\<close>

text \<open>
  The file-level \<open>volatile\<close> globals (lines 15 to 20) and the \<open>static\<close> locals of
  \<open>handleOneWireInput\<close> (lines 61 and 65 to 67) form one record. Everything the code
  does to the outside is a \<open>pin_event\<close>: the functions return the events they
  perform, in order.
\<close>

record bus =
  pinRX :: u8
  pinTX :: u8
  oneWireAddress :: u8
  oneWirePayloadOut :: i32
  oneWirePayloadIn :: i32
  oneWireMessageReceived :: bool
  oneWireListener :: bool
  lastEdge :: u32
  bitCount :: u8
  ignoreCount :: u8
  tempData :: u32

datatype pin_event =
    DigitalWrite u8 bool
  | DelayMicroseconds nat
  | NoInterrupts
  | Interrupts

subsection \<open>\<open>sendData\<close> (lines 170 to 186)\<close>

text \<open>
  The loop \<open>for (uint8_t i = width; i > 0; i--)\<close> is \<open>sendBits\<close>, by recursion on
  \<open>i\<close>; in the equation for \<open>Suc i\<close> the source's \<open>i - 1\<close> is \<open>i\<close>. The mask
  \<open>1L << (i - 1)\<close> is a 32-bit shift: C defines it for \<open>width \<le> 32\<close> only, and the
  only widths this file passes are \<open>addressWidth\<close> and \<open>dataWidth\<close>.
\<close>

fun sendBits :: "u8 \<Rightarrow> u32 \<Rightarrow> nat \<Rightarrow> pin_event list" where
  "sendBits tx data 0 = []"
| "sendBits tx data (Suc i) =
    (let mask = (push_bit i 1 :: u32);
         currentBit = (mask AND data \<noteq> 0)
     in [DigitalWrite tx currentBit,
         DelayMicroseconds (bitPeriod - pulsePeriod),
         DigitalWrite tx (\<not> currentBit),
         DelayMicroseconds pulsePeriod] @ sendBits tx data i)"

definition sendData :: "u8 \<Rightarrow> u32 \<Rightarrow> u8 \<Rightarrow> pin_event list" where
  "sendData tx data width =
    [NoInterrupts] @ sendBits tx data (unat width) @ [DigitalWrite tx False, Interrupts]"

subsection \<open>\<open>handleOneWireInput\<close> (lines 60 to 125)\<close>

text \<open>
  One invocation takes what the handler reads from the hardware: \<open>present\<close> is the
  value of \<open>micros()\<close> at line 62 and \<open>reading\<close> the value of
  \<open>digitalRead(pinRX)\<close> at line 88. The handler is written in its two halves.
  \<open>sampleEdge\<close> is lines 61 to 90: it ends either at one of the three early
  \<open>return\<close>s or after the bit has been shifted in and counted. \<open>dispatchFrame\<close> is
  lines 92 to 124, the role-dependent end of a frame.
\<close>

datatype sampled = Returned bus | Shifted bus

definition sampleEdge :: "u32 \<Rightarrow> bool \<Rightarrow> bus \<Rightarrow> sampled" where
  "sampleEdge present reading s =
    (let delta = present - lastEdge s in
     if delta < of_nat (3 * pulsePeriod) then Returned s
     else
       let s1 = s\<lparr>lastEdge := present\<rparr> in
       if of_nat (2 * bitPeriod) < delta
       then Returned (s1\<lparr>bitCount := 0, ignoreCount := 0, tempData := 0\<rparr>)
       else if ignoreCount s1 \<noteq> 0
       then Returned (s1\<lparr>ignoreCount := ignoreCount s1 - 1\<rparr>)
       else Shifted (s1\<lparr>tempData := push_bit 1 (tempData s1) + of_bool reading,
                         bitCount := bitCount s1 + 1\<rparr>))"

text \<open>
  Lines 114 to 117, the sign extension of the received pattern. \<open>1L\<close> is a 32-bit
  \<open>long\<close>; the literal \<open>0xFFFFFFFF\<close> does not fit \<open>int\<close> or \<open>long\<close> and so is an
  \<open>unsigned long\<close>: both shifts are 32-bit. The result is stored in the \<open>int32_t\<close>
  \<open>oneWirePayloadIn\<close>, the same 32 bits read as two's complement.
\<close>

definition signExtend :: "u32 \<Rightarrow> i32" where
  "signExtend p =
    (if p AND push_bit (dataWidth - 1) 1 \<noteq> 0
     then p OR push_bit (dataWidth - 1) 0xFFFFFFFF
     else p)"

definition dispatchFrame :: "bus \<Rightarrow> bus \<times> pin_event list" where
  "dispatchFrame s =
    (if oneWireListener s then
       (if unat (bitCount s) = addressWidth then
          (if tempData s = ucast (oneWireAddress s)
           then (s\<lparr>bitCount := 0, tempData := 0\<rparr>,
                 sendData (pinTX s) (oneWirePayloadOut s) (of_nat dataWidth))
           else (s\<lparr>ignoreCount := of_nat dataWidth, bitCount := 0, tempData := 0\<rparr>, []))
        else (s, []))
     else
       (if unat (bitCount s) = dataWidth then
          (s\<lparr>oneWireMessageReceived := True,
             oneWirePayloadIn := signExtend (tempData s),
             bitCount := 0, ignoreCount := 0, tempData := 0\<rparr>, [])
        else (s, [])))"

definition handleOneWireInput :: "u32 \<Rightarrow> bool \<Rightarrow> bus \<Rightarrow> bus \<times> pin_event list" where
  "handleOneWireInput present reading s =
    (case sampleEdge present reading s of
       Returned s' \<Rightarrow> (s', [])
     | Shifted s' \<Rightarrow> dispatchFrame s')"

text \<open>
  A sequence of invocations, one per edge; an edge is the pair of \<open>present\<close> and
  \<open>reading\<close> of its invocation.
\<close>

type_synonym edge = "u32 \<times> bool"

fun runEdges :: "edge list \<Rightarrow> bus \<Rightarrow> bus \<times> pin_event list" where
  "runEdges [] s = (s, [])"
| "runEdges (e # es) s =
    (let (s1, out1) = handleOneWireInput (fst e) (snd e) s;
         (s2, out2) = runEdges es s1
     in (s2, out1 @ out2))"

text \<open>
  \<open>acceptedGaps l es\<close>: every edge of \<open>es\<close> comes neither too early nor too late
  after the edge accepted before it (\<open>l\<close> is the time of the last one accepted before
  \<open>es\<close>), so that the handler passes both timing tests of lines 70 and 74.
\<close>

fun acceptedGaps :: "u32 \<Rightarrow> edge list \<Rightarrow> bool" where
  "acceptedGaps l [] = True"
| "acceptedGaps l (e # es) =
    (of_nat (3 * pulsePeriod) \<le> fst e - l \<and> fst e - l \<le> of_nat (2 * bitPeriod)
     \<and> acceptedGaps (fst e) es)"

text \<open>
  The invariant of the decoder under one role: \<open>bitCount\<close> stays below the width
  of the role's frame, and the shift register holds no more bits than were counted.
\<close>

definition decoderInv :: "bus \<Rightarrow> bool" where
  "decoderInv s =
    (unat (bitCount s) < (if oneWireListener s then addressWidth else dataWidth)
     \<and> uint (tempData s) < 2 ^ unat (bitCount s))"

text \<open>
  The values the shift register takes: \<open>shiftLog es s\<close> lists, for every edge of \<open>es\<close>
  that reaches line 90, \<open>bitCount\<close> and \<open>tempData\<close> as they are after line 90, before
  the frame is dispatched.
\<close>

fun shiftLog :: "edge list \<Rightarrow> bus \<Rightarrow> (u8 \<times> u32) list" where
  "shiftLog [] s = []"
| "shiftLog (e # es) s =
    (case sampleEdge (fst e) (snd e) s of
       Returned s1 \<Rightarrow> []
     | Shifted s1 \<Rightarrow> [(bitCount s1, tempData s1)])
    @ shiftLog es (fst (handleOneWireInput (fst e) (snd e) s))"

subsection \<open>The line between a transmitter and a receiver\<close>

text \<open>
  The source drives the line through a transistor on \<open>pinTX\<close>: writing \<open>HIGH\<close> is
  ``pull line down'' (line 139) and writing \<open>LOW\<close> is ``release line'' (line 184), so
  while one node transmits the line level is the negation of its \<open>pinTX\<close> level. A
  receiver runs its handler on every change of the line (\<open>CHANGE\<close>, line 40).
  \<open>lineEdges tx t lvl evs\<close> are the edges a receiver sees while a transmitter performs
  \<open>evs\<close>: \<open>t\<close> is the receiver's \<open>micros()\<close> when \<open>evs\<close> start, \<open>lvl\<close> the level of
  the transmitter's pin \<open>tx\<close> before. Each write that changes the pin is one edge, at
  the time of the write, read as the line level after it; a delay moves the clock on
  and takes exactly its length.
\<close>

fun lineEdges :: "u8 \<Rightarrow> u32 \<Rightarrow> bool \<Rightarrow> pin_event list \<Rightarrow> edge list" where
  "lineEdges tx t lvl [] = []"
| "lineEdges tx t lvl (DigitalWrite p v # evs) =
    (if p = tx
     then (if v \<noteq> lvl then [(t, \<not> v)] else []) @ lineEdges tx t v evs
     else lineEdges tx t lvl evs)"
| "lineEdges tx t lvl (DelayMicroseconds d # evs) = lineEdges tx (t + of_nat d) lvl evs"
| "lineEdges tx t lvl (NoInterrupts # evs) = lineEdges tx t lvl evs"
| "lineEdges tx t lvl (Interrupts # evs) = lineEdges tx t lvl evs"

subsection \<open>\<open>requestOneWire\<close> (lines 135 to 158)\<close>

text \<open>
  The wait loop of line 148 reads the clock and a flag that only the interrupt handler
  sets, so what it does depends on what happens while it spins. \<open>env k\<close> is what
  happens up to the \<open>k\<close>-th evaluation of the loop condition (counted from 0): the
  edges whose interrupts are served since the evaluation before, and the value that
  \<open>millis()\<close> returns in the condition. No interrupt is served between the last
  evaluation of the condition and the return. The loop need not end, so it is a partial
  function; it also returns how often the condition held, the number of iterations.
\<close>

record poll =
  pollEdges :: "edge list"
  pollMillis :: u32

partial_function (option) awaitResponse ::
  "u32 \<Rightarrow> (nat \<Rightarrow> poll) \<Rightarrow> nat \<Rightarrow> bus \<Rightarrow> pin_event list
    \<Rightarrow> (bus \<times> pin_event list \<times> nat) option" where
  "awaitResponse timeoutMark env k s out =
    (let (s1, out1) = runEdges (pollEdges (env k)) s in
     if \<not> oneWireMessageReceived s1 \<and> pollMillis (env k) < timeoutMark
     then awaitResponse timeoutMark env (Suc k) s1 (out @ out1)
     else Some (s1, out @ out1, k))"

text \<open>
  \<open>started\<close> is the value of \<open>millis()\<close> at line 147. The result is the value stored
  through \<open>destination\<close>, the state, the pin events in order and the number of
  iterations of the wait loop.
\<close>

definition requestOneWire ::
  "u8 \<Rightarrow> u32 \<Rightarrow> (nat \<Rightarrow> poll) \<Rightarrow> bus \<Rightarrow> (i32 \<times> bus \<times> pin_event list \<times> nat) option" where
  "requestOneWire targetAdd started env s =
    (let out0 = [NoInterrupts, DigitalWrite (pinTX s) True, DelayMicroseconds pulsePeriod]
                @ sendData (pinTX s) (ucast targetAdd) (of_nat addressWidth);
         timeoutMark = started + 10
     in case awaitResponse timeoutMark env 0 s out0 of
          None \<Rightarrow> None
        | Some (s1, out1, k) \<Rightarrow>
            Some (if oneWireMessageReceived s1 then oneWirePayloadIn s1 else 0,
                  s1\<lparr>oneWireMessageReceived := False\<rparr>,
                  out1 @ [DigitalWrite 13 True],
                  k))"

subsection \<open>Two configured nodes\<close>

text \<open>
  A listener at address 5 that offers the payload \<open>-100\<close>, and a controller, both
  as \<open>setupOneWire\<close> leaves them, with the handler's statics at their initial zero.
\<close>

definition listenerNode :: bus where
  "listenerNode =
    \<lparr>pinRX = 2, pinTX = 3, oneWireAddress = 5, oneWirePayloadOut = - 100,
     oneWirePayloadIn = 0, oneWireMessageReceived = False, oneWireListener = True,
     lastEdge = 0, bitCount = 0, ignoreCount = 0, tempData = 0\<rparr>"

definition controllerNode :: bus where
  "controllerNode =
    \<lparr>pinRX = 2, pinTX = 3, oneWireAddress = 0, oneWirePayloadOut = 0,
     oneWirePayloadIn = 0, oneWireMessageReceived = False, oneWireListener = False,
     lastEdge = 0, bitCount = 0, ignoreCount = 0, tempData = 0\<rparr>"

text \<open>
  The 24 marker edges of a reply on the line, one bit period apart, as a node that
  is not addressed sees them.
\<close>

definition replyEdges :: "edge list" where
  "replyEdges = map (\<lambda>k. (of_nat (80 * k), even k)) [1..<25]"

text \<open>
  A quiet line while the controller waits: no edge arrives, and the millisecond clock
  reads \<open>m\<close> at the first evaluation of the loop condition and one more at each
  further one.
\<close>

definition steadyClock :: "u32 \<Rightarrow> nat \<Rightarrow> poll" where
  "steadyClock m k = \<lparr>pollEdges = [], pollMillis = m + of_nat k\<rparr>"

section \<open>Properties of the edge handler\<close>

subsection \<open>Glitch rejection\<close>

lemma glitch_step:
  "present - lastEdge s < of_nat (3 * pulsePeriod) \<Longrightarrow>
     handleOneWireInput present reading s = (s, [])"
  by (simp add: handleOneWireInput_def sampleEdge_def)

text \<open>
  C6. An invocation whose gap is below \<open>3 * pulsePeriod\<close> leaves the whole state as
  it is, \<open>lastEdge\<close> included, and transmits nothing. Since \<open>lastEdge\<close> stays, any
  sequence of edges that are all that close to \<open>lastEdge\<close> does nothing at all.
\<close>

theorem glitch_edges_ignored:
  assumes "\<forall>e \<in> set es. fst e - lastEdge s < of_nat (3 * pulsePeriod)"
  shows "runEdges es s = (s, [])
         \<and> (\<forall>e \<in> set es. handleOneWireInput (fst e) (snd e) s = (s, []))"
proof
  show "runEdges es s = (s, [])"
    using assms by (induction es) (simp_all add: glitch_step)
  show "\<forall>e \<in> set es. handleOneWireInput (fst e) (snd e) s = (s, [])"
    using assms by (simp add: glitch_step)
qed

theorem glitch_edges_ignored_witness:
  "(10 :: u32) - lastEdge listenerNode < of_nat (3 * pulsePeriod)
   \<and> (74 :: u32) - lastEdge listenerNode < of_nat (3 * pulsePeriod)
   \<and> runEdges [(10, True), (74, False)] listenerNode = (listenerNode, [])
   \<and> handleOneWireInput 10 True listenerNode = (listenerNode, [])
   \<and> handleOneWireInput 74 False listenerNode = (listenerNode, [])"
proof -
  have h: "\<forall>e \<in> set [(10, True), (74, False)].
             fst e - lastEdge listenerNode < of_nat (3 * pulsePeriod)"
    by (simp add: listenerNode_def pulsePeriod_def)
  from glitch_edges_ignored [OF h] h show ?thesis by simp
qed

subsection \<open>Frame timeout\<close>

text \<open>
  C5. Whatever the decoder state, an invocation whose gap \<open>delta\<close> is above
  \<open>2 * bitPeriod\<close> (and therefore not below \<open>3 * pulsePeriod\<close>) clears
  \<open>bitCount\<close>, \<open>ignoreCount\<close> and \<open>tempData\<close>, records the present time in
  \<open>lastEdge\<close>, changes nothing else, counts no bit and transmits nothing.
\<close>

theorem frame_timeout_resets:
  assumes "of_nat (2 * bitPeriod) < present - lastEdge s"
  shows "handleOneWireInput present reading s =
           (s\<lparr>lastEdge := present, bitCount := 0, ignoreCount := 0, tempData := 0\<rparr>, [])"
proof -
  have "\<not> present - lastEdge s < of_nat (3 * pulsePeriod)"
  proof
    assume "present - lastEdge s < of_nat (3 * pulsePeriod)"
    with assms have "(of_nat (2 * bitPeriod) :: u32) < of_nat (3 * pulsePeriod)"
      by (rule less_trans)
    then show False by (simp add: bitPeriod_def pulsePeriod_def)
  qed
  with assms show ?thesis
    by (simp add: handleOneWireInput_def sampleEdge_def Let_def)
qed

theorem frame_timeout_resets_witness:
  "of_nat (3 * pulsePeriod) \<le> (1000 :: u32) - lastEdge listenerNode
   \<and> of_nat (2 * bitPeriod) < (1000 :: u32) - lastEdge listenerNode
   \<and> handleOneWireInput 1000 True (listenerNode\<lparr>bitCount := 2, ignoreCount := 7, tempData := 3\<rparr>) =
       (listenerNode\<lparr>lastEdge := 1000\<rparr>, [])"
proof -
  let ?s = "listenerNode\<lparr>bitCount := 2, ignoreCount := 7, tempData := 3\<rparr>"
  have h1: "of_nat (3 * pulsePeriod) \<le> (1000 :: u32) - lastEdge ?s"
    by (simp add: listenerNode_def pulsePeriod_def)
  have h2: "of_nat (2 * bitPeriod) < (1000 :: u32) - lastEdge ?s"
    by (simp add: listenerNode_def bitPeriod_def)
  from frame_timeout_resets [OF h2, of True] h1 h2 show ?thesis
    by (simp add: listenerNode_def)
qed

subsection \<open>Dispatch of a complete frame\<close>

text \<open>
  What \<open>sendData\<close> does, written out: the test of line 176 reads bit \<open>i - 1\<close> of
  \<open>data\<close>, and the loop runs through the bits from \<open>width - 1\<close> down to 0. For each
  it drives the pin to the bit for \<open>bitPeriod - pulsePeriod\<close> microseconds and to
  its inverse for \<open>pulsePeriod\<close> microseconds; then it releases the line.
\<close>

lemma mask_test: "((push_bit i 1 :: u32) AND v \<noteq> 0) = bit v i"
  by (simp add: bit_iff_and_push_bit_not_eq_0 and.commute)

lemma sendBits_events:
  "sendBits tx data n =
     concat (map (\<lambda>i. [DigitalWrite tx (bit data i),
                          DelayMicroseconds (bitPeriod - pulsePeriod),
                          DigitalWrite tx (\<not> bit data i),
                          DelayMicroseconds pulsePeriod]) (rev [0 ..< n]))"
proof (induction n)
  case 0
  show ?case by simp
next
  case (Suc n)
  have "sendBits tx data (Suc n) =
      [DigitalWrite tx (bit data n), DelayMicroseconds (bitPeriod - pulsePeriod),
       DigitalWrite tx (\<not> bit data n), DelayMicroseconds pulsePeriod] @ sendBits tx data n"
    by (simp only: sendBits.simps Let_def mask_test)
  with Suc.IH show ?case by simp
qed

lemma sendData_events:
  "sendData tx data width =
     [NoInterrupts]
     @ concat (map (\<lambda>i. [DigitalWrite tx (bit data i),
                            DelayMicroseconds (bitPeriod - pulsePeriod),
                            DigitalWrite tx (\<not> bit data i),
                            DelayMicroseconds pulsePeriod]) (rev [0 ..< unat width]))
     @ [DigitalWrite tx False, Interrupts]"
  by (simp only: sendData_def sendBits_events)

text \<open>
  C2. In the listener role, on the accepted edge that brings \<open>bitCount\<close> to
  \<open>addressWidth\<close>: if the shift register equals \<open>oneWireAddress\<close> the handler
  transmits \<open>oneWirePayloadOut\<close> as a frame of \<open>dataWidth\<close> bits and leaves
  \<open>ignoreCount\<close> as it is (zero). The frame is what \<open>sendData\<close> performs for the
  payload and \<open>dataWidth\<close>: with interrupts off, one slot for each of the bits
  \<open>dataWidth - 1\<close> down to 0 of the payload, \<open>pinTX\<close> at the bit and then at its
  inverse, then \<open>pinTX\<close> low and interrupts on. If the register differs from the
  address the handler transmits nothing and sets \<open>ignoreCount\<close> to \<open>dataWidth\<close>.
  Either way \<open>bitCount\<close> and \<open>tempData\<close> are zero when it returns.
\<close>

theorem listener_address_dispatch:
  assumes "oneWireListener s"
    and "of_nat (3 * pulsePeriod) \<le> present - lastEdge s"
    and "present - lastEdge s \<le> of_nat (2 * bitPeriod)"
    and "ignoreCount s = 0"
    and "unat (bitCount s + 1) = addressWidth"
  shows "handleOneWireInput present reading s =
    (if push_bit 1 (tempData s) + of_bool reading = ucast (oneWireAddress s)
     then (s\<lparr>lastEdge := present, bitCount := 0, tempData := 0\<rparr>,
           [NoInterrupts]
           @ concat (map (\<lambda>i. [DigitalWrite (pinTX s) (bit (oneWirePayloadOut s) i),
                                  DelayMicroseconds (bitPeriod - pulsePeriod),
                                  DigitalWrite (pinTX s) (\<not> bit (oneWirePayloadOut s) i),
                                  DelayMicroseconds pulsePeriod]) (rev [0 ..< dataWidth]))
           @ [DigitalWrite (pinTX s) False, Interrupts])
     else (s\<lparr>lastEdge := present, bitCount := 0, ignoreCount := of_nat dataWidth,
             tempData := 0\<rparr>, []))
    \<and> sendData (pinTX s) (oneWirePayloadOut s) (of_nat dataWidth) =
        [NoInterrupts]
        @ concat (map (\<lambda>i. [DigitalWrite (pinTX s) (bit (oneWirePayloadOut s) i),
                               DelayMicroseconds (bitPeriod - pulsePeriod),
                               DigitalWrite (pinTX s) (\<not> bit (oneWirePayloadOut s) i),
                               DelayMicroseconds pulsePeriod]) (rev [0 ..< dataWidth]))
        @ [DigitalWrite (pinTX s) False, Interrupts]"
proof
  have w: "unat (of_nat dataWidth :: u8) = dataWidth"
    by (simp add: dataWidth_def)
  show e: "sendData (pinTX s) (oneWirePayloadOut s) (of_nat dataWidth) =
        [NoInterrupts]
        @ concat (map (\<lambda>i. [DigitalWrite (pinTX s) (bit (oneWirePayloadOut s) i),
                               DelayMicroseconds (bitPeriod - pulsePeriod),
                               DigitalWrite (pinTX s) (\<not> bit (oneWirePayloadOut s) i),
                               DelayMicroseconds pulsePeriod]) (rev [0 ..< dataWidth]))
        @ [DigitalWrite (pinTX s) False, Interrupts]"
    by (simp only: sendData_events w)
  have "handleOneWireInput present reading s =
    (if push_bit 1 (tempData s) + of_bool reading = ucast (oneWireAddress s)
     then (s\<lparr>lastEdge := present, bitCount := 0, tempData := 0\<rparr>,
           sendData (pinTX s) (oneWirePayloadOut s) (of_nat dataWidth))
     else (s\<lparr>lastEdge := present, bitCount := 0, ignoreCount := of_nat dataWidth,
             tempData := 0\<rparr>, []))"
    using assms
    by (simp add: handleOneWireInput_def sampleEdge_def dispatchFrame_def Let_def
        not_less [symmetric])
  then show "handleOneWireInput present reading s =
    (if push_bit 1 (tempData s) + of_bool reading = ucast (oneWireAddress s)
     then (s\<lparr>lastEdge := present, bitCount := 0, tempData := 0\<rparr>,
           [NoInterrupts]
           @ concat (map (\<lambda>i. [DigitalWrite (pinTX s) (bit (oneWirePayloadOut s) i),
                                  DelayMicroseconds (bitPeriod - pulsePeriod),
                                  DigitalWrite (pinTX s) (\<not> bit (oneWirePayloadOut s) i),
                                  DelayMicroseconds pulsePeriod]) (rev [0 ..< dataWidth]))
           @ [DigitalWrite (pinTX s) False, Interrupts])
     else (s\<lparr>lastEdge := present, bitCount := 0, ignoreCount := of_nat dataWidth,
             tempData := 0\<rparr>, []))"
    by (simp only: e)
qed

theorem listener_address_dispatch_witness:
  "handleOneWireInput 80 True (listenerNode\<lparr>bitCount := 3, tempData := 2\<rparr>) =
     (listenerNode\<lparr>lastEdge := 80\<rparr>,
      [NoInterrupts, DigitalWrite 3 True, DelayMicroseconds 55, DigitalWrite 3 False,
       DelayMicroseconds 25, DigitalWrite 3 True, DelayMicroseconds 55,
       DigitalWrite 3 False, DelayMicroseconds 25, DigitalWrite 3 True,
       DelayMicroseconds 55, DigitalWrite 3 False, DelayMicroseconds 25,
       DigitalWrite 3 True, DelayMicroseconds 55, DigitalWrite 3 False,
       DelayMicroseconds 25, DigitalWrite 3 True, DelayMicroseconds 55,
       DigitalWrite 3 False, DelayMicroseconds 25, DigitalWrite 3 True,
       DelayMicroseconds 55, DigitalWrite 3 False, DelayMicroseconds 25,
       DigitalWrite 3 True, DelayMicroseconds 55, DigitalWrite 3 False,
       DelayMicroseconds 25, DigitalWrite 3 True, DelayMicroseconds 55,
       DigitalWrite 3 False, DelayMicroseconds 25, DigitalWrite 3 True,
       DelayMicroseconds 55, DigitalWrite 3 False, DelayMicroseconds 25,
       DigitalWrite 3 True, DelayMicroseconds 55, DigitalWrite 3 False,
       DelayMicroseconds 25, DigitalWrite 3 True, DelayMicroseconds 55,
       DigitalWrite 3 False, DelayMicroseconds 25, DigitalWrite 3 True,
       DelayMicroseconds 55, DigitalWrite 3 False, DelayMicroseconds 25,
       DigitalWrite 3 True, DelayMicroseconds 55, DigitalWrite 3 False,
       DelayMicroseconds 25, DigitalWrite 3 True, DelayMicroseconds 55,
       DigitalWrite 3 False, DelayMicroseconds 25, DigitalWrite 3 True,
       DelayMicroseconds 55, DigitalWrite 3 False, DelayMicroseconds 25,
       DigitalWrite 3 True, DelayMicroseconds 55, DigitalWrite 3 False,
       DelayMicroseconds 25, DigitalWrite 3 True, DelayMicroseconds 55,
       DigitalWrite 3 False, DelayMicroseconds 25, DigitalWrite 3 False,
       DelayMicroseconds 55, DigitalWrite 3 True, DelayMicroseconds 25,
       DigitalWrite 3 False, DelayMicroseconds 55, DigitalWrite 3 True,
       DelayMicroseconds 25, DigitalWrite 3 True, DelayMicroseconds 55,
       DigitalWrite 3 False, DelayMicroseconds 25, DigitalWrite 3 True,
       DelayMicroseconds 55, DigitalWrite 3 False, DelayMicroseconds 25,
       DigitalWrite 3 True, DelayMicroseconds 55, DigitalWrite 3 False,
       DelayMicroseconds 25, DigitalWrite 3 False, DelayMicroseconds 55,
       DigitalWrite 3 True, DelayMicroseconds 25, DigitalWrite 3 False,
       DelayMicroseconds 55, DigitalWrite 3 True, DelayMicroseconds 25,
       DigitalWrite 3 False, Interrupts])
   \<and> handleOneWireInput 80 False (listenerNode\<lparr>bitCount := 3, tempData := 2\<rparr>) =
     (listenerNode\<lparr>lastEdge := 80, ignoreCount := 24\<rparr>, [])"
proof -
  let ?s = "listenerNode\<lparr>bitCount := 3, tempData := 2\<rparr>"
  have h1: "oneWireListener ?s" by (simp add: listenerNode_def)
  have h2: "of_nat (3 * pulsePeriod) \<le> (80 :: u32) - lastEdge ?s"
    by (simp add: listenerNode_def pulsePeriod_def)
  have h3: "(80 :: u32) - lastEdge ?s \<le> of_nat (2 * bitPeriod)"
    by (simp add: listenerNode_def bitPeriod_def)
  have h4: "ignoreCount ?s = 0" by (simp add: listenerNode_def)
  have h5: "unat (bitCount ?s + 1) = addressWidth"
    by (simp add: listenerNode_def addressWidth_def)
  have m: "push_bit 1 (tempData ?s) + of_bool True = ucast (oneWireAddress ?s)"
    by (simp add: listenerNode_def)
  have n: "push_bit 1 (tempData ?s) + of_bool False \<noteq> ucast (oneWireAddress ?s)"
    by (simp add: listenerNode_def)
  have ev: "[NoInterrupts]
           @ concat (map (\<lambda>i. [DigitalWrite (pinTX ?s) (bit (oneWirePayloadOut ?s) i),
                                  DelayMicroseconds (bitPeriod - pulsePeriod),
                                  DigitalWrite (pinTX ?s) (\<not> bit (oneWirePayloadOut ?s) i),
                                  DelayMicroseconds pulsePeriod]) (rev [0 ..< dataWidth]))
           @ [DigitalWrite (pinTX ?s) False, Interrupts] =
      [NoInterrupts, DigitalWrite 3 True, DelayMicroseconds 55, DigitalWrite 3 False,
       DelayMicroseconds 25, DigitalWrite 3 True, DelayMicroseconds 55,
       DigitalWrite 3 False, DelayMicroseconds 25, DigitalWrite 3 True,
       DelayMicroseconds 55, DigitalWrite 3 False, DelayMicroseconds 25,
       DigitalWrite 3 True, DelayMicroseconds 55, DigitalWrite 3 False,
       DelayMicroseconds 25, DigitalWrite 3 True, DelayMicroseconds 55,
       DigitalWrite 3 False, DelayMicroseconds 25, DigitalWrite 3 True,
       DelayMicroseconds 55, DigitalWrite 3 False, DelayMicroseconds 25,
       DigitalWrite 3 True, DelayMicroseconds 55, DigitalWrite 3 False,
       DelayMicroseconds 25, DigitalWrite 3 True, DelayMicroseconds 55,
       DigitalWrite 3 False, DelayMicroseconds 25, DigitalWrite 3 True,
       DelayMicroseconds 55, DigitalWrite 3 False, DelayMicroseconds 25,
       DigitalWrite 3 True, DelayMicroseconds 55, DigitalWrite 3 False,
       DelayMicroseconds 25, DigitalWrite 3 True, DelayMicroseconds 55,
       DigitalWrite 3 False, DelayMicroseconds 25, DigitalWrite 3 True,
       DelayMicroseconds 55, DigitalWrite 3 False, DelayMicroseconds 25,
       DigitalWrite 3 True, DelayMicroseconds 55, DigitalWrite 3 False,
       DelayMicroseconds 25, DigitalWrite 3 True, DelayMicroseconds 55,
       DigitalWrite 3 False, DelayMicroseconds 25, DigitalWrite 3 True,
       DelayMicroseconds 55, DigitalWrite 3 False, DelayMicroseconds 25,
       DigitalWrite 3 True, DelayMicroseconds 55, DigitalWrite 3 False,
       DelayMicroseconds 25, DigitalWrite 3 True, DelayMicroseconds 55,
       DigitalWrite 3 False, DelayMicroseconds 25, DigitalWrite 3 False,
       DelayMicroseconds 55, DigitalWrite 3 True, DelayMicroseconds 25,
       DigitalWrite 3 False, DelayMicroseconds 55, DigitalWrite 3 True,
       DelayMicroseconds 25, DigitalWrite 3 True, DelayMicroseconds 55,
       DigitalWrite 3 False, DelayMicroseconds 25, DigitalWrite 3 True,
       DelayMicroseconds 55, DigitalWrite 3 False, DelayMicroseconds 25,
       DigitalWrite 3 True, DelayMicroseconds 55, DigitalWrite 3 False,
       DelayMicroseconds 25, DigitalWrite 3 False, DelayMicroseconds 55,
       DigitalWrite 3 True, DelayMicroseconds 25, DigitalWrite 3 False,
       DelayMicroseconds 55, DigitalWrite 3 True, DelayMicroseconds 25,
       DigitalWrite 3 False, Interrupts]"
    by code_simp
  have st: "?s\<lparr>lastEdge := 80, bitCount := 0, tempData := 0\<rparr> = listenerNode\<lparr>lastEdge := 80\<rparr>"
    "?s\<lparr>lastEdge := 80, bitCount := 0, ignoreCount := of_nat dataWidth, tempData := 0\<rparr>
      = listenerNode\<lparr>lastEdge := 80, ignoreCount := 24\<rparr>"
    by (simp_all add: listenerNode_def dataWidth_def)
  from listener_address_dispatch [OF h1 h2 h3 h4 h5, of True, THEN conjunct1]
  have a: "handleOneWireInput 80 True ?s = (listenerNode\<lparr>lastEdge := 80\<rparr>,
      [NoInterrupts, DigitalWrite 3 True, DelayMicroseconds 55, DigitalWrite 3 False,
       DelayMicroseconds 25, DigitalWrite 3 True, DelayMicroseconds 55,
       DigitalWrite 3 False, DelayMicroseconds 25, DigitalWrite 3 True,
       DelayMicroseconds 55, DigitalWrite 3 False, DelayMicroseconds 25,
       DigitalWrite 3 True, DelayMicroseconds 55, DigitalWrite 3 False,
       DelayMicroseconds 25, DigitalWrite 3 True, DelayMicroseconds 55,
       DigitalWrite 3 False, DelayMicroseconds 25, DigitalWrite 3 True,
       DelayMicroseconds 55, DigitalWrite 3 False, DelayMicroseconds 25,
       DigitalWrite 3 True, DelayMicroseconds 55, DigitalWrite 3 False,
       DelayMicroseconds 25, DigitalWrite 3 True, DelayMicroseconds 55,
       DigitalWrite 3 False, DelayMicroseconds 25, DigitalWrite 3 True,
       DelayMicroseconds 55, DigitalWrite 3 False, DelayMicroseconds 25,
       DigitalWrite 3 True, DelayMicroseconds 55, DigitalWrite 3 False,
       DelayMicroseconds 25, DigitalWrite 3 True, DelayMicroseconds 55,
       DigitalWrite 3 False, DelayMicroseconds 25, DigitalWrite 3 True,
       DelayMicroseconds 55, DigitalWrite 3 False, DelayMicroseconds 25,
       DigitalWrite 3 True, DelayMicroseconds 55, DigitalWrite 3 False,
       DelayMicroseconds 25, DigitalWrite 3 True, DelayMicroseconds 55,
       DigitalWrite 3 False, DelayMicroseconds 25, DigitalWrite 3 True,
       DelayMicroseconds 55, DigitalWrite 3 False, DelayMicroseconds 25,
       DigitalWrite 3 True, DelayMicroseconds 55, DigitalWrite 3 False,
       DelayMicroseconds 25, DigitalWrite 3 True, DelayMicroseconds 55,
       DigitalWrite 3 False, DelayMicroseconds 25, DigitalWrite 3 False,
       DelayMicroseconds 55, DigitalWrite 3 True, DelayMicroseconds 25,
       DigitalWrite 3 False, DelayMicroseconds 55, DigitalWrite 3 True,
       DelayMicroseconds 25, DigitalWrite 3 True, DelayMicroseconds 55,
       DigitalWrite 3 False, DelayMicroseconds 25, DigitalWrite 3 True,
       DelayMicroseconds 55, DigitalWrite 3 False, DelayMicroseconds 25,
       DigitalWrite 3 True, DelayMicroseconds 55, DigitalWrite 3 False,
       DelayMicroseconds 25, DigitalWrite 3 False, DelayMicroseconds 55,
       DigitalWrite 3 True, DelayMicroseconds 25, DigitalWrite 3 False,
       DelayMicroseconds 55, DigitalWrite 3 True, DelayMicroseconds 25,
       DigitalWrite 3 False, Interrupts])"
    by (simp only: if_P [OF m] ev st)
  from listener_address_dispatch [OF h1 h2 h3 h4 h5, of False, THEN conjunct1]
  have b: "handleOneWireInput 80 False ?s = (listenerNode\<lparr>lastEdge := 80, ignoreCount := 24\<rparr>, [])"
    by (simp only: if_not_P [OF n] st)
  from a b show ?thesis by (rule conjI)
qed

lemma push_ones_23: "(push_bit 23 0xFFFFFFFF :: u32) = NOT (mask 23)"
proof -
  have "(0xFFFFFFFF :: u32) = - 1" by simp
  then show ?thesis by (simp only: push_bit_minus_one_eq_not_mask)
qed

lemma or_high_ones: "bit p 23 \<Longrightarrow> (p::u32) OR NOT (mask 23) = signed_take_bit 23 p"
  by (rule bit_word_eqI) (auto simp add: bit_simps min_def)

lemma bits_below_24:
  assumes "uint (p::u32) < 2 ^ 24" and "bit p n"
  shows "n < 24"
proof -
  have "take_bit 24 (uint p) = uint p"
    using assms(1) by (simp add: take_bit_int_eq_self)
  then have "bit (uint p) n = bit (take_bit 24 (uint p)) n" by simp
  with assms(2) bit_imp_le_length [OF assms(2)] show ?thesis
    by (simp add: bit_take_bit_iff bit_uint_iff)
qed

lemma positive_pattern:
  assumes "\<not> bit p 23" and "uint (p::u32) < 2 ^ 24"
  shows "signed_take_bit 23 p = p"
proof (rule bit_word_eqI)
  fix n assume "n < LENGTH(32)"
  show "bit (signed_take_bit 23 p) n = bit p n"
  proof (cases "n < 23")
    case True
    then show ?thesis by (simp add: bit_simps min_def)
  next
    case False
    have "\<not> bit p n"
    proof
      assume b: "bit p n"
      from bits_below_24 [OF assms(2) b] False have "n = 23" by simp
      with b assms(1) show False by simp
    qed
    with False assms(1) show ?thesis by (simp add: bit_simps min_def)
  qed
qed

lemma sint_signed_take_bit_23:
  "sint (signed_take_bit 23 (p::u32)) = signed_take_bit 23 (uint p)"
  by (rule bit_eqI) (auto simp add: bit_simps bit_sint_iff bit_uint_iff min_def)

lemma signed_take_bit_23_int:
  assumes "0 \<le> k" and "k < 2 ^ 24"
  shows "signed_take_bit 23 (k::int) = (if bit k 23 then k - 2 ^ 24 else k)"
proof (cases "k < 2 ^ 23")
  case True
  then have "k div 2 ^ 23 = 0" using assms by simp
  then have nb: "\<not> bit k 23" by (simp add: bit_iff_odd)
  have "take_bit 24 (k + 2 ^ 23) = k + 2 ^ 23"
    using True assms by (simp add: take_bit_int_eq_self)
  with nb show ?thesis by (simp add: signed_take_bit_eq_take_bit_shift)
next
  case False
  then have "k div 2 ^ 23 = 1" using assms by simp
  then have b: "bit k 23" by (simp add: bit_iff_odd)
  have "take_bit 24 (k + 2 ^ 23) = take_bit 24 (k + 2 ^ 23 - 2 ^ 24)"
    unfolding take_bit_eq_mod by (rule minus_mod_self2 [symmetric])
  also have "\<dots> = k + 2 ^ 23 - 2 ^ 24"
    using False assms by (simp add: take_bit_int_eq_self)
  finally show ?thesis using b by (simp add: signed_take_bit_eq_take_bit_shift)
qed

lemma signExtend_sint:
  assumes "uint p < 2 ^ 24"
  shows "sint (signExtend p) = (if bit p 23 then uint p - 2 ^ 24 else uint p)"
proof -
  have t: "(p AND push_bit 23 1 \<noteq> 0) = bit p 23"
    by (simp only: bit_iff_and_push_bit_not_eq_0)
  have e: "(24::nat) - 1 = 23" by simp
  have "signExtend p = signed_take_bit 23 p"
    unfolding signExtend_def dataWidth_def e t push_ones_23
    using or_high_ones [of p] positive_pattern [OF _ assms] by auto
  then show ?thesis
    using signed_take_bit_23_int [of "uint p"] assms
    by (simp add: sint_signed_take_bit_23 bit_uint_iff)
qed

text \<open>
  C3. In the controller role, on the accepted edge that brings \<open>bitCount\<close> to
  \<open>dataWidth\<close>, with \<open>p\<close> the pattern of \<open>dataWidth\<close> bits then in the shift register:
  the handler stores in \<open>oneWirePayloadIn\<close> the value that, read as a signed integer,
  is \<open>p - 2 ^ dataWidth\<close> if bit \<open>dataWidth - 1\<close> of \<open>p\<close> is set and \<open>p\<close> otherwise;
  it sets \<open>oneWireMessageReceived\<close> and clears \<open>bitCount\<close>, \<open>ignoreCount\<close> and
  \<open>tempData\<close>.
\<close>

theorem controller_frame_complete:
  assumes "\<not> oneWireListener s"
    and "of_nat (3 * pulsePeriod) \<le> present - lastEdge s"
    and "present - lastEdge s \<le> of_nat (2 * bitPeriod)"
    and "ignoreCount s = 0"
    and "unat (bitCount s + 1) = dataWidth"
    and "p = push_bit 1 (tempData s) + of_bool reading"
    and "p < 2 ^ dataWidth"
  shows "handleOneWireInput present reading s =
           (s\<lparr>lastEdge := present, oneWireMessageReceived := True,
              oneWirePayloadIn := signExtend p,
              bitCount := 0, ignoreCount := 0, tempData := 0\<rparr>, [])
         \<and> sint (signExtend p) =
             (if bit p (dataWidth - 1) then uint p - 2 ^ dataWidth else uint p)"
proof
  have "uint p < 2 ^ 24"
    using assms(7) by (simp add: dataWidth_def word_less_def)
  from signExtend_sint [OF this]
  show "sint (signExtend p) = (if bit p (dataWidth - 1) then uint p - 2 ^ dataWidth else uint p)"
    by (simp add: dataWidth_def)
  show "handleOneWireInput present reading s =
           (s\<lparr>lastEdge := present, oneWireMessageReceived := True,
              oneWirePayloadIn := signExtend p,
              bitCount := 0, ignoreCount := 0, tempData := 0\<rparr>, [])"
    using assms(1-6)
    by (simp add: handleOneWireInput_def sampleEdge_def dispatchFrame_def Let_def
        not_less [symmetric])
qed

theorem controller_frame_complete_witness:
  "handleOneWireInput 80 False (controllerNode\<lparr>bitCount := 23, tempData := 0x7FFFCE\<rparr>) =
     (controllerNode\<lparr>lastEdge := 80, oneWireMessageReceived := True,
        oneWirePayloadIn := signExtend 0xFFFF9C\<rparr>, [])
   \<and> sint (signExtend 0xFFFF9C) = - 100
   \<and> sint (signExtend 0x00FF9C) = 65436"
proof -
  let ?s = "controllerNode\<lparr>bitCount := 23, tempData := 0x7FFFCE\<rparr>"
  let ?t = "controllerNode\<lparr>bitCount := 23, tempData := 0x007FCE\<rparr>"
  have h1: "\<not> oneWireListener ?s" "\<not> oneWireListener ?t"
    by (simp_all add: controllerNode_def)
  have h2: "of_nat (3 * pulsePeriod) \<le> (80 :: u32) - lastEdge ?s"
    "of_nat (3 * pulsePeriod) \<le> (80 :: u32) - lastEdge ?t"
    by (simp_all add: controllerNode_def pulsePeriod_def)
  have h3: "(80 :: u32) - lastEdge ?s \<le> of_nat (2 * bitPeriod)"
    "(80 :: u32) - lastEdge ?t \<le> of_nat (2 * bitPeriod)"
    by (simp_all add: controllerNode_def bitPeriod_def)
  have h4: "ignoreCount ?s = 0" "ignoreCount ?t = 0"
    by (simp_all add: controllerNode_def)
  have h5: "unat (bitCount ?s + 1) = dataWidth" "unat (bitCount ?t + 1) = dataWidth"
    by (simp_all add: controllerNode_def dataWidth_def)
  have h6: "(0xFFFF9C :: u32) = push_bit 1 (tempData ?s) + of_bool False"
    "(0x00FF9C :: u32) = push_bit 1 (tempData ?t) + of_bool False"
    by (simp_all add: controllerNode_def)
  have h7: "(0xFFFF9C :: u32) < 2 ^ dataWidth" "(0x00FF9C :: u32) < 2 ^ dataWidth"
    by (simp_all add: dataWidth_def)
  have b: "bit (0xFFFF9C :: u32) (dataWidth - 1)" "\<not> bit (0x00FF9C :: u32) (dataWidth - 1)"
    by (simp_all add: dataWidth_def bit_iff_odd)
  from controller_frame_complete [OF h1(1) h2(1) h3(1) h4(1) h5(1) h6(1) h7(1)]
    controller_frame_complete [OF h1(2) h2(2) h3(2) h4(2) h5(2) h6(2) h7(2)] b
  show ?thesis by (simp add: controllerNode_def dataWidth_def)
qed

subsection \<open>Collision suppression\<close>

lemma ignore_step:
  assumes "of_nat (3 * pulsePeriod) \<le> present - lastEdge s"
    and "present - lastEdge s \<le> of_nat (2 * bitPeriod)"
    and "ignoreCount s \<noteq> 0"
  shows "handleOneWireInput present reading s =
    (s\<lparr>lastEdge := present, ignoreCount := ignoreCount s - 1\<rparr>, [])"
  using assms
  by (simp add: handleOneWireInput_def sampleEdge_def Let_def not_less [symmetric])

lemma ignore_run:
  assumes "acceptedGaps (lastEdge s) es" and "length es \<le> unat (ignoreCount s)"
  shows "runEdges es s =
    (s\<lparr>lastEdge := last (lastEdge s # map fst es),
       ignoreCount := ignoreCount s - of_nat (length es)\<rparr>, [])"
  using assms
proof (induction es arbitrary: s)
  case Nil
  then show ?case by simp
next
  case (Cons e es)
  from Cons.prems(2) have nz: "ignoreCount s \<noteq> 0" by auto
  let ?s1 = "s\<lparr>lastEdge := fst e, ignoreCount := ignoreCount s - 1\<rparr>"
  have step: "handleOneWireInput (fst e) (snd e) s = (?s1, [])"
    using Cons.prems(1) nz by (simp add: ignore_step)
  have "unat (ignoreCount s - 1) = unat (ignoreCount s) - 1"
    using nz by (simp add: unat_minus_one)
  with Cons.prems have "acceptedGaps (lastEdge ?s1) es" "length es \<le> unat (ignoreCount ?s1)"
    by simp_all
  from Cons.IH [OF this] step show ?case
    by (simp add: algebra_simps)
qed

lemma acceptedGaps_append:
  "acceptedGaps l (es @ fs) = (acceptedGaps l es \<and> acceptedGaps (last (l # map fst es)) fs)"
  by (induction es arbitrary: l) auto

lemma acceptedGaps_take: "acceptedGaps l es \<Longrightarrow> acceptedGaps l (take n es)"
  by (metis acceptedGaps_append append_take_drop_id)

lemma runEdges_append:
  "runEdges (es @ fs) s =
     (let (s1, out1) = runEdges es s; (s2, out2) = runEdges fs s1 in (s2, out1 @ out2))"
  by (induction es arbitrary: s) (simp_all add: split_beta Let_def)

text \<open>
  C7. Take a listener as an address mismatch leaves it: \<open>ignoreCount\<close> is
  \<open>dataWidth\<close>, \<open>bitCount\<close> and \<open>tempData\<close> are zero. Of the accepted edges that
  follow (each within the window from \<open>3 * pulsePeriod\<close> to \<open>2 * bitPeriod\<close> after the
  one before), the first \<open>dataWidth\<close> are discarded: after \<open>n\<close> of them
  \<open>ignoreCount\<close> is \<open>dataWidth - n\<close>, and nothing but \<open>lastEdge\<close> has changed
  besides. The next accepted edge is the first bit of a new address frame: it is
  shifted into the empty register and counted as bit 1.
\<close>

theorem collision_suppression:
  assumes "oneWireListener s"
    and "ignoreCount s = of_nat dataWidth" and "bitCount s = 0" and "tempData s = 0"
    and "length es = dataWidth"
    and "acceptedGaps (lastEdge s) (es @ [e])"
  shows "(\<forall>n \<le> dataWidth. runEdges (take n es) s =
            (s\<lparr>lastEdge := last (lastEdge s # map fst (take n es)),
               ignoreCount := of_nat (dataWidth - n)\<rparr>, []))
         \<and> runEdges (es @ [e]) s =
            (s\<lparr>lastEdge := fst e, bitCount := 1, ignoreCount := 0,
               tempData := of_bool (snd e)\<rparr>, [])"
proof (intro conjI allI impI)
  have gaps: "acceptedGaps (lastEdge s) es"
    and gap_e: "acceptedGaps (last (lastEdge s # map fst es)) [e]"
    using assms(6) by (simp_all add: acceptedGaps_append)
  have u: "unat (ignoreCount s) = dataWidth"
    using assms(2) by (simp add: dataWidth_def)
  {
    fix n assume n: "n \<le> dataWidth"
    have "length (take n es) = n" using n assms(5) by simp
    moreover have "ignoreCount s - of_nat n = of_nat (dataWidth - n)"
      using n assms(2) by simp
    ultimately show "runEdges (take n es) s =
            (s\<lparr>lastEdge := last (lastEdge s # map fst (take n es)),
               ignoreCount := of_nat (dataWidth - n)\<rparr>, [])"
      using ignore_run [OF acceptedGaps_take [OF gaps, of n]] u n by simp
  }
  let ?s1 = "s\<lparr>lastEdge := last (lastEdge s # map fst es), ignoreCount := 0\<rparr>"
  have r: "runEdges es s = (?s1, [])"
    using ignore_run [OF gaps] u assms(2,5) by simp
  have "handleOneWireInput (fst e) (snd e) ?s1 =
      (s\<lparr>lastEdge := fst e, bitCount := 1, ignoreCount := 0, tempData := of_bool (snd e)\<rparr>, [])"
    using gap_e assms(1,3,4)
    by (simp add: handleOneWireInput_def sampleEdge_def dispatchFrame_def Let_def
        addressWidth_def not_less [symmetric])
  with r show "runEdges (es @ [e]) s =
            (s\<lparr>lastEdge := fst e, bitCount := 1, ignoreCount := 0,
               tempData := of_bool (snd e)\<rparr>, [])"
    by (simp add: runEdges_append)
qed

theorem collision_suppression_witness:
  "runEdges (take 7 replyEdges) (listenerNode\<lparr>ignoreCount := 24\<rparr>) =
     (listenerNode\<lparr>lastEdge := 560, ignoreCount := 17\<rparr>, [])
   \<and> runEdges replyEdges (listenerNode\<lparr>ignoreCount := 24\<rparr>) =
     (listenerNode\<lparr>lastEdge := 1920\<rparr>, [])
   \<and> runEdges (replyEdges @ [(2000, True)]) (listenerNode\<lparr>ignoreCount := 24\<rparr>) =
     (listenerNode\<lparr>lastEdge := 2000, bitCount := 1, tempData := 1\<rparr>, [])"
proof -
  let ?s = "listenerNode\<lparr>ignoreCount := 24\<rparr>"
  have h1: "oneWireListener ?s" by (simp add: listenerNode_def)
  have h2: "ignoreCount ?s = of_nat dataWidth" by (simp add: dataWidth_def)
  have h3: "bitCount ?s = 0" by (simp add: listenerNode_def)
  have h4: "tempData ?s = 0" by (simp add: listenerNode_def)
  have h5: "length replyEdges = dataWidth"
    by (simp add: replyEdges_def dataWidth_def)
  have h6: "acceptedGaps (lastEdge ?s) (replyEdges @ [(2000, True)])"
    by (simp add: listenerNode_def replyEdges_def upt_rec pulsePeriod_def bitPeriod_def)
  note c = collision_suppression [OF h1 h2 h3 h4 h5 h6]
  have l7: "last (lastEdge ?s # map fst (take 7 replyEdges)) = 560"
    by (simp add: listenerNode_def replyEdges_def upt_rec)
  have l24: "last (lastEdge ?s # map fst (take 24 replyEdges)) = 1920"
    by (simp add: listenerNode_def replyEdges_def upt_rec)
  have t24: "take 24 replyEdges = replyEdges"
    by (simp add: replyEdges_def)
  have n7: "7 \<le> dataWidth" and n24: "24 \<le> dataWidth"
    by (simp_all add: dataWidth_def)
  from c [THEN conjunct1, rule_format, OF n7]
  have a: "runEdges (take 7 replyEdges) ?s = (?s\<lparr>lastEdge := 560, ignoreCount := 17\<rparr>, [])"
    unfolding l7 by (simp add: dataWidth_def)
  from c [THEN conjunct1, rule_format, OF n24]
  have b: "runEdges replyEdges ?s = (?s\<lparr>lastEdge := 1920, ignoreCount := 0\<rparr>, [])"
    unfolding l24 unfolding t24 by (simp add: dataWidth_def)
  from c [THEN conjunct2]
  have d: "runEdges (replyEdges @ [(2000, True)]) ?s =
      (?s\<lparr>lastEdge := 2000, bitCount := 1, ignoreCount := 0, tempData := 1\<rparr>, [])"
    by simp
  from a b d show ?thesis
    by (simp add: listenerNode_def)
qed

subsection \<open>The bit counter\<close>

lemma bitCount_Suc:
  assumes "unat (c::u8) < 24"
  shows "unat (c + 1) = Suc (unat c)"
proof -
  have "unat c + unat (1::u8) < 2 ^ LENGTH(8)"
    using assms by simp
  then have "unat (c + 1) = unat c + unat (1::u8)"
    by (simp only: unat_add_lem)
  then show ?thesis by simp
qed

lemma shift_bound:
  assumes "uint (t::u32) < 2 ^ c"
  shows "uint (push_bit 1 t + of_bool b) < 2 ^ Suc c"
proof -
  have "uint (push_bit 1 t + of_bool b) \<le> uint (push_bit 1 t) + uint (of_bool b :: u32)"
    by (simp add: uint_word_ariths zmod_le_nonneg_dividend)
  also have "uint (push_bit 1 t) \<le> 2 * uint t"
  proof -
    have "uint (push_bit 1 t) = (uint t * 2) mod 2 ^ 32"
      by (simp add: push_bit_eq_mult uint_word_ariths)
    also have "\<dots> \<le> uint t * 2"
      by (rule zmod_le_nonneg_dividend) simp
    finally show ?thesis by simp
  qed
  also have "uint (of_bool b :: u32) \<le> 1" by simp
  finally have "uint (push_bit 1 t + of_bool b) \<le> 2 * uint t + 1" by simp
  with assms show ?thesis by simp
qed

lemma decoderInv_step:
  assumes "decoderInv s"
  shows "decoderInv (fst (handleOneWireInput present reading s))"
proof -
  have c: "unat (bitCount s) < 24"
    using assms by (auto simp add: decoderInv_def addressWidth_def dataWidth_def split: if_splits)
  have t: "uint (tempData s) < 2 ^ unat (bitCount s)"
    using assms by (simp add: decoderInv_def)
  show ?thesis
    using assms bitCount_Suc [OF c] shift_bound [OF t, of reading]
    by (auto simp add: decoderInv_def handleOneWireInput_def sampleEdge_def dispatchFrame_def
        Let_def addressWidth_def dataWidth_def split: if_splits)
qed

lemma decoderInv_run:
  "decoderInv s \<Longrightarrow> decoderInv (fst (runEdges es s))"
proof (induction es arbitrary: s)
  case Nil
  then show ?case by simp
next
  case (Cons e es)
  from decoderInv_step [OF Cons.prems, of "fst e" "snd e"]
  have "decoderInv (fst (runEdges es (fst (handleOneWireInput (fst e) (snd e) s))))"
    by (rule Cons.IH)
  then show ?case by (simp add: split_beta)
qed

lemma decoderInv_bound:
  "decoderInv s \<Longrightarrow> unat (bitCount s) \<le> max addressWidth dataWidth"
  by (auto simp add: decoderInv_def split: if_splits)

lemma decoderInv_empty:
  assumes "decoderInv s" and "bitCount s = 0"
  shows "tempData s = 0"
proof -
  from assms have "uint (tempData s) < 1" by (simp add: decoderInv_def)
  with uint_nonnegative [of "tempData s"] have "uint (tempData s) = 0" by linarith
  then show ?thesis by (simp only: uint_0_iff)
qed

text \<open>
  In every run from the initial decoder the register holds a pattern of
  \<open>dataWidth\<close> bits when a controller's edge brings \<open>bitCount\<close> to \<open>dataWidth\<close>.
\<close>

lemma pattern_fits_frame:
  assumes "bitCount s0 = 0" and "tempData s0 = 0"
    and "s = fst (runEdges es s0)"
    and "unat (bitCount s + 1) = dataWidth"
  shows "push_bit 1 (tempData s) + of_bool reading < (2 ^ dataWidth :: u32)"
proof -
  have "decoderInv s0"
    using assms(1,2) by (simp add: decoderInv_def addressWidth_def dataWidth_def)
  then have i: "decoderInv s"
    unfolding assms(3) by (rule decoderInv_run)
  then have c: "unat (bitCount s) < 24"
    by (auto simp add: decoderInv_def addressWidth_def dataWidth_def split: if_splits)
  from i have t: "uint (tempData s) < 2 ^ unat (bitCount s)"
    by (simp add: decoderInv_def)
  from bitCount_Suc [OF c] assms(4) have "Suc (unat (bitCount s)) = 24"
    by (simp add: dataWidth_def)
  with shift_bound [OF t, of reading]
  have "uint (push_bit 1 (tempData s) + of_bool reading) < 2 ^ 24"
    by simp
  then show ?thesis
    by (simp add: word_less_def dataWidth_def)
qed

lemma role_step:
  "oneWireListener (fst (handleOneWireInput present reading s)) = oneWireListener s"
  by (simp add: handleOneWireInput_def sampleEdge_def dispatchFrame_def Let_def)

lemma role_run: "oneWireListener (fst (runEdges es s)) = oneWireListener s"
  by (induction es arbitrary: s) (simp_all add: split_beta role_step)

text \<open>
  C8. Start from a decoder whose \<open>bitCount\<close> and \<open>tempData\<close> are zero, as they are
  initialised, and let the handler run on any sequence of edges; the handler never
  changes the role. Before and after every further invocation \<open>bitCount\<close> is at
  most \<open>max addressWidth dataWidth\<close>, and whenever \<open>bitCount\<close> is zero after an
  invocation, \<open>tempData\<close> is zero after it too.
\<close>

theorem bitCount_invariant:
  assumes "bitCount s0 = 0" and "tempData s0 = 0"
  shows "let s = fst (runEdges es s0);
             s' = fst (handleOneWireInput present reading s)
         in unat (bitCount s) \<le> max addressWidth dataWidth
          \<and> unat (bitCount s') \<le> max addressWidth dataWidth
          \<and> (bitCount s' = 0 \<longrightarrow> tempData s' = 0)
          \<and> oneWireListener s = oneWireListener s0
          \<and> oneWireListener s' = oneWireListener s0"
proof -
  have "decoderInv s0"
    using assms by (simp add: decoderInv_def addressWidth_def dataWidth_def)
  then have i: "decoderInv (fst (runEdges es s0))"
    by (rule decoderInv_run)
  then have j: "decoderInv (fst (handleOneWireInput present reading (fst (runEdges es s0))))"
    by (rule decoderInv_step)
  from decoderInv_empty [OF j]
  have "bitCount (fst (handleOneWireInput present reading (fst (runEdges es s0)))) = 0
      \<longrightarrow> tempData (fst (handleOneWireInput present reading (fst (runEdges es s0)))) = 0"
    by blast
  with decoderInv_bound [OF i] decoderInv_bound [OF j] show ?thesis
    by (simp add: Let_def role_step role_run)
qed

theorem bitCount_invariant_witness:
  "unat (bitCount (fst (runEdges [(100, True)] controllerNode))) = 1
   \<and> tempData (fst (runEdges [(100, True)] controllerNode)) = 1
   \<and> bitCount (fst (handleOneWireInput 1000 False
        (fst (runEdges [(100, True)] controllerNode)))) = 0
   \<and> tempData (fst (handleOneWireInput 1000 False
        (fst (runEdges [(100, True)] controllerNode)))) = 0
   \<and> unat (bitCount (fst (runEdges [(100, True)] controllerNode)))
        \<le> max addressWidth dataWidth"
proof -
  have h1: "bitCount controllerNode = 0" and h2: "tempData controllerNode = 0"
    by (simp_all add: controllerNode_def)
  have r: "fst (runEdges [(100, True)] controllerNode) =
      controllerNode\<lparr>lastEdge := 100, bitCount := 1, tempData := 1\<rparr>"
    by (simp add: controllerNode_def handleOneWireInput_def sampleEdge_def dispatchFrame_def
        Let_def pulsePeriod_def bitPeriod_def dataWidth_def)
  have z: "bitCount (fst (handleOneWireInput 1000 False
        (fst (runEdges [(100, True)] controllerNode)))) = 0"
    unfolding r
    by (simp add: controllerNode_def handleOneWireInput_def sampleEdge_def
        Let_def pulsePeriod_def bitPeriod_def)
  from bitCount_invariant [OF h1 h2, of "[(100, True)]" 1000 False] z
  have "tempData (fst (handleOneWireInput 1000 False
        (fst (runEdges [(100, True)] controllerNode)))) = 0"
    and "unat (bitCount (fst (runEdges [(100, True)] controllerNode)))
        \<le> max addressWidth dataWidth"
    by (simp_all add: Let_def)
  with z show ?thesis
    unfolding r by simp
qed

subsection \<open>Round trip through transmitter and decoder\<close>

text \<open>
  With the constants of lines 10 and 11 a bit slot takes 80 microseconds and its
  marker edge, the write of the inverted level, comes 55 microseconds after its
  start; the handler rejects gaps below 75 and above 160 microseconds. A marker edge
  that comes 55 microseconds after a slot start which lies 20 to 74 microseconds
  after the last accepted edge passes both tests; an edge at the slot start itself is
  rejected.
\<close>

lemma marker_gap:
  fixes g :: u32
  assumes "20 \<le> g" and "g < 75"
  shows "\<not> g + 55 < 75" and "\<not> 160 < g + 55"
proof -
  have lo: "20 \<le> uint g" using assms(1) by (simp add: word_le_def)
  have hi: "uint g < 75" using assms(2) by (simp add: word_less_def)
  have "uint g + uint (55 :: u32) < 2 ^ LENGTH(32)" using hi by simp
  then have "uint (g + 55) = uint g + uint (55 :: u32)"
    by (simp only: uint_add_lem)
  then have e: "uint (g + 55) = uint g + 55" by simp
  show "\<not> g + 55 < 75" using lo e by (simp add: word_less_def)
  show "\<not> 160 < g + 55" using hi e by (simp add: word_less_def)
qed

lemma shift_in: "push_bit 1 (drop_bit (Suc i) v) + of_bool (bit v i) = drop_bit i (v :: u32)"
proof -
  let ?a = "drop_bit i v"
  have d: "drop_bit (Suc i) v = drop_bit 1 ?a" by simp
  have b: "bit v i = odd ?a" by (simp add: bit_iff_odd_drop_bit)
  have "push_bit 1 (drop_bit 1 ?a) + of_bool (odd ?a) = 2 * (?a div 2) + ?a mod 2"
    by (simp add: push_bit_eq_mult drop_bit_eq_div mod_2_eq_odd)
  also have "\<dots> = ?a" by (rule mult_div_mod_eq)
  finally show ?thesis by (simp only: d b)
qed

lemma count_unat: "c < 24 \<Longrightarrow> unat (of_nat c + 1 :: u8) = Suc c"
proof -
  assume "c < 24"
  then have "unat (of_nat (Suc c) :: u8) = Suc c"
    by (simp add: unat_of_nat del: of_nat_Suc)
  then show ?thesis by (simp add: add.commute)
qed

lemma top_clear: "(v :: u32) < 2 ^ w \<Longrightarrow> drop_bit w v = 0"
  by (simp add: drop_bit_eq_div div_word_less)

lemma shiftLog_append:
  "shiftLog (es @ fs) s = shiftLog es s @ shiftLog fs (fst (runEdges es s))"
  by (induction es arbitrary: s) (simp_all add: split_beta)

lemma dispatchFrame_lastEdge: "lastEdge (fst (dispatchFrame s)) = lastEdge s"
  by (simp add: dispatchFrame_def)

lemma dispatchFrame_idle:
  "unat (bitCount s) < (if oneWireListener s then addressWidth else dataWidth) \<Longrightarrow>
     dispatchFrame s = (s, [])"
  by (cases "oneWireListener s") (simp_all add: dispatchFrame_def)

lemma sample_glitch:
  "t - lastEdge s < 75 \<Longrightarrow> sampleEdge t r s = Returned s"
  by (simp add: sampleEdge_def pulsePeriod_def)

lemma sample_marker:
  assumes "20 \<le> t - lastEdge s" and "t - lastEdge s < 75" and "ignoreCount s = 0"
  shows "sampleEdge (t + 55) cb s =
    Shifted (s\<lparr>lastEdge := t + 55, bitCount := bitCount s + 1,
               tempData := push_bit 1 (tempData s) + of_bool cb\<rparr>)"
proof -
  have d: "t + 55 - lastEdge s = (t - lastEdge s) + 55" by simp
  have n: "of_nat (3 * pulsePeriod) = (75 :: u32)" "of_nat (2 * bitPeriod) = (160 :: u32)"
    by (simp_all add: pulsePeriod_def bitPeriod_def)
  show ?thesis
    unfolding sampleEdge_def Let_def d n
    using marker_gap [OF assms(1,2)] assms(3) by simp
qed

lemma bit_slot:
  assumes "20 \<le> t - lastEdge s" and "t - lastEdge s < 75" and "ignoreCount s = 0"
  shows "shiftLog ((if cb \<noteq> lvl then [(t, \<not> cb)] else []) @ [(t + 55, cb)]) s =
           [(bitCount s + 1, push_bit 1 (tempData s) + of_bool cb)]"
    and "fst (runEdges ((if cb \<noteq> lvl then [(t, \<not> cb)] else []) @ [(t + 55, cb)]) s) =
           fst (dispatchFrame (s\<lparr>lastEdge := t + 55, bitCount := bitCount s + 1,
               tempData := push_bit 1 (tempData s) + of_bool cb\<rparr>))"
  using sample_glitch [OF assms(2), of "\<not> cb"] sample_marker [OF assms, of cb]
  by (cases cb; cases lvl; simp add: handleOneWireInput_def)+

lemma lineEdges_bit:
  "lineEdges tx t lvl (sendBits tx v (Suc i) @ rest) =
     ((if bit v i \<noteq> lvl then [(t, \<not> bit v i)] else []) @ [(t + 55, bit v i)])
     @ lineEdges tx (t + 80) (\<not> bit v i) (sendBits tx v i @ rest)"
proof -
  have e: "sendBits tx v (Suc i) =
      [DigitalWrite tx (bit v i), DelayMicroseconds 55,
       DigitalWrite tx (\<not> bit v i), DelayMicroseconds 25] @ sendBits tx v i"
    by (simp only: sendBits.simps Let_def mask_test) (simp add: bitPeriod_def pulsePeriod_def)
  show ?thesis
    unfolding e by (simp add: add.assoc)
qed

text \<open>
  The bit loop, by induction on the number \<open>i\<close> of bits still to send: \<open>c\<close> bits
  have been counted and the register holds the bits of \<open>v\<close> above the \<open>i\<close> that
  remain. Every slot adds one entry to the log, and the last marker edge lies 25
  microseconds before the end of the transmission.
\<close>

lemma sendBits_shiftLog:
  assumes "20 \<le> t - lastEdge s" and "t - lastEdge s < 75"
    and "0 < i \<Longrightarrow> ignoreCount s = 0 \<and> bitCount s = of_nat c \<and> tempData s = drop_bit i v
           \<and> c + i \<le> (if oneWireListener s then addressWidth else dataWidth)"
  shows "\<exists>s' lvl'. 20 \<le> t + of_nat (80 * i) - lastEdge s'
           \<and> t + of_nat (80 * i) - lastEdge s' < 75
           \<and> shiftLog (lineEdges tx t lvl (sendBits tx v i @ rest)) s =
               map (\<lambda>k. (of_nat k, drop_bit (c + i - k) v)) [Suc c ..< Suc (c + i)]
               @ shiftLog (lineEdges tx (t + of_nat (80 * i)) lvl' rest) s'"
  using assms
proof (induction i arbitrary: t s c lvl)
  case 0
  then show ?case by auto
next
  case (Suc i)
  let ?cb = "bit v i"
  let ?es = "(if ?cb \<noteq> lvl then [(t, \<not> ?cb)] else []) @ [(t + 55, ?cb)]"
  let ?s1 = "s\<lparr>lastEdge := t + 55, bitCount := bitCount s + 1,
               tempData := push_bit 1 (tempData s) + of_bool ?cb\<rparr>"
  let ?s2 = "fst (dispatchFrame ?s1)"
  from Suc.prems(3) have ic: "ignoreCount s = 0" and bc: "bitCount s = of_nat c"
    and td: "tempData s = drop_bit (Suc i) v"
    and lim: "c + Suc i \<le> (if oneWireListener s then addressWidth else dataWidth)"
    by simp_all
  have c24: "c < 24"
    using lim by (simp add: addressWidth_def dataWidth_def split: if_splits)
  have log1: "shiftLog ?es s = [(of_nat (Suc c), drop_bit i v)]"
    using bit_slot(1) [OF Suc.prems(1,2) ic, of ?cb lvl] shift_in [of i v]
    by (simp only: bc td) simp
  have run1: "fst (runEdges ?es s) = ?s2"
    by (rule bit_slot(2) [OF Suc.prems(1,2) ic])
  have gap: "20 \<le> t + 80 - lastEdge ?s2" "t + 80 - lastEdge ?s2 < 75"
    by (simp_all add: dispatchFrame_lastEdge)
  have next_state: "ignoreCount ?s2 = 0 \<and> bitCount ?s2 = of_nat (Suc c)
      \<and> tempData ?s2 = drop_bit i v
      \<and> Suc c + i \<le> (if oneWireListener ?s2 then addressWidth else dataWidth)" if "0 < i"
  proof -
    have "unat (bitCount ?s1) = Suc c"
      using count_unat [OF c24] by (simp add: bc)
    with lim that have "unat (bitCount ?s1)
        < (if oneWireListener ?s1 then addressWidth else dataWidth)"
      by (simp split: if_splits)
    then have "dispatchFrame ?s1 = (?s1, [])" by (rule dispatchFrame_idle)
    then show ?thesis
      using ic lim shift_in [of i v] by (simp add: bc td)
  qed
  from Suc.IH [OF gap next_state, of "\<not> ?cb"]
  obtain s' lvl' where
    g': "20 \<le> t + 80 + of_nat (80 * i) - lastEdge s'"
        "t + 80 + of_nat (80 * i) - lastEdge s' < 75"
    and log2: "shiftLog (lineEdges tx (t + 80) (\<not> ?cb) (sendBits tx v i @ rest)) ?s2 =
               map (\<lambda>k. (of_nat k, drop_bit (Suc c + i - k) v)) [Suc (Suc c) ..< Suc (Suc c + i)]
               @ shiftLog (lineEdges tx (t + 80 + of_nat (80 * i)) lvl' rest) s'"
    by blast
  have tm: "t + 80 + of_nat (80 * i) = t + of_nat (80 * Suc i)"
    by simp
  have ix: "map (\<lambda>k. (of_nat k, drop_bit (c + Suc i - k) v)) [Suc c ..< Suc (c + Suc i)] =
      (of_nat (Suc c), drop_bit i v)
      # map (\<lambda>k. (of_nat k, drop_bit (Suc c + i - k) v)) [Suc (Suc c) ..< Suc (Suc c + i)]"
    by (simp add: upt_conv_Cons del: of_nat_Suc upt_Suc)
  have "shiftLog (lineEdges tx t lvl (sendBits tx v (Suc i) @ rest)) s =
      shiftLog ?es s
      @ shiftLog (lineEdges tx (t + 80) (\<not> ?cb) (sendBits tx v i @ rest)) (fst (runEdges ?es s))"
    by (simp only: lineEdges_bit shiftLog_append)
  also have "\<dots> = map (\<lambda>k. (of_nat k, drop_bit (c + Suc i - k) v)) [Suc c ..< Suc (c + Suc i)]
               @ shiftLog (lineEdges tx (t + of_nat (80 * Suc i)) lvl' rest) s'"
    unfolding log1 run1 log2 ix tm by simp
  finally show ?case
    using g' unfolding tm by blast
qed

lemma release_ignored:
  assumes "t - lastEdge s < 75"
  shows "shiftLog (lineEdges tx t lvl [DigitalWrite tx False, Interrupts]) s = []"
  using sample_glitch [OF assms, of True] by simp

text \<open>
  C1. Let a transmitter perform \<open>sendData tx v w\<close> for a value \<open>v\<close> below \<open>2 ^ w\<close>,
  where \<open>w\<close> is the width of the frame the receiver decodes: \<open>addressWidth\<close>, or
  \<open>dataWidth\<close> for a receiver in the controller role. The receiver's decoder is reset
  (\<open>bitCount\<close>, \<open>ignoreCount\<close> and \<open>tempData\<close> are zero) and its last accepted edge
  lies so far before the first bit slot that the first marker edge is accepted and an
  edge at the start of the slot is not (between \<open>3 * pulsePeriod - (bitPeriod -
  pulsePeriod)\<close> and \<open>3 * pulsePeriod\<close> microseconds; after the wake pulse of
  \<open>requestOneWire\<close> it is \<open>pulsePeriod\<close>). Then exactly \<open>w\<close> edges are shifted in,
  and after the \<open>k\<close>-th of them \<open>bitCount\<close> is \<open>k\<close> and the shift register holds the
  \<open>k\<close> most significant of the \<open>w\<close> bits of \<open>v\<close>: bit for bit, most significant
  first, and all of \<open>v\<close> after the \<open>w\<close>-th.
\<close>

theorem round_trip:
  assumes "w = addressWidth \<or> (w = dataWidth \<and> \<not> oneWireListener s)"
    and "v < 2 ^ w"
    and "bitCount s = 0" and "ignoreCount s = 0" and "tempData s = 0"
    and "of_nat (3 * pulsePeriod - (bitPeriod - pulsePeriod)) \<le> t - lastEdge s"
    and "t - lastEdge s < of_nat (3 * pulsePeriod)"
  shows "shiftLog (lineEdges tx t lvl (sendData tx v (of_nat w))) s =
           map (\<lambda>k. (of_nat k, drop_bit (w - k) v)) [1 ..< Suc w]
       \<and> length (shiftLog (lineEdges tx t lvl (sendData tx v (of_nat w))) s) = w
       \<and> last (shiftLog (lineEdges tx t lvl (sendData tx v (of_nat w))) s) = (of_nat w, v)"
proof -
  have w: "unat (of_nat w :: u8) = w"
    using assms(1) by (auto simp add: addressWidth_def dataWidth_def)
  have lo: "20 \<le> t - lastEdge s"
    using assms(6) by (simp add: pulsePeriod_def bitPeriod_def)
  have hi: "t - lastEdge s < 75"
    using assms(7) by (simp add: pulsePeriod_def)
  have start: "ignoreCount s = 0 \<and> bitCount s = of_nat 0 \<and> tempData s = drop_bit w v
      \<and> 0 + w \<le> (if oneWireListener s then addressWidth else dataWidth)"
    using assms(1-5) by (auto simp add: top_clear addressWidth_def dataWidth_def)
  from sendBits_shiftLog [OF lo hi start, of tx lvl "[DigitalWrite tx False, Interrupts]"]
  obtain s' lvl' where g: "t + of_nat (80 * w) - lastEdge s' < 75"
    and l: "shiftLog (lineEdges tx t lvl (sendBits tx v w @ [DigitalWrite tx False, Interrupts])) s
      = map (\<lambda>k. (of_nat k, drop_bit (0 + w - k) v)) [Suc 0 ..< Suc (0 + w)]
        @ shiftLog (lineEdges tx (t + of_nat (80 * w)) lvl' [DigitalWrite tx False, Interrupts]) s'"
    by blast
  have e: "shiftLog (lineEdges tx t lvl (sendData tx v (of_nat w))) s =
           map (\<lambda>k. (of_nat k, drop_bit (w - k) v)) [1 ..< Suc w]"
    unfolding sendData_def w using l release_ignored [OF g, of tx lvl']
    by simp
  have pos: "0 < w"
    using assms(1) by (auto simp add: addressWidth_def dataWidth_def)
  have "length (map (\<lambda>k. (of_nat k :: u8, drop_bit (w - k) v)) [1 ..< Suc w]) = w"
    by simp
  moreover
  have "last (map (\<lambda>k. (of_nat k :: u8, drop_bit (w - k) v)) [1 ..< Suc w]) = (of_nat w, v)"
    using pos by (simp add: last_map)
  ultimately show ?thesis
    unfolding e by (intro conjI) simp_all
qed

theorem round_trip_witness:
  "shiftLog (lineEdges 3 25 True (sendData 3 5 4)) listenerNode =
     [(1, 0), (2, 1), (3, 2), (4, 5)]
   \<and> length (shiftLog (lineEdges 3 25 False (sendData 3 0xFFFF9C 24)) controllerNode) = 24
   \<and> last (shiftLog (lineEdges 3 25 False (sendData 3 0xFFFF9C 24)) controllerNode) =
       (24, 0xFFFF9C)"
proof -
  have a1: "4 = addressWidth \<or> (4 = dataWidth \<and> \<not> oneWireListener listenerNode)"
    by (simp add: addressWidth_def)
  have a2: "(5 :: u32) < 2 ^ 4" by simp
  have a3: "bitCount listenerNode = 0" "ignoreCount listenerNode = 0" "tempData listenerNode = 0"
    by (simp_all add: listenerNode_def)
  have a6: "of_nat (3 * pulsePeriod - (bitPeriod - pulsePeriod)) \<le> (25 :: u32) - lastEdge listenerNode"
    by (simp add: listenerNode_def pulsePeriod_def bitPeriod_def)
  have a7: "(25 :: u32) - lastEdge listenerNode < of_nat (3 * pulsePeriod)"
    by (simp add: listenerNode_def pulsePeriod_def)
  have b1: "24 = addressWidth \<or> (24 = dataWidth \<and> \<not> oneWireListener controllerNode)"
    by (simp add: dataWidth_def controllerNode_def)
  have b2: "(0xFFFF9C :: u32) < 2 ^ 24" by simp
  have b3: "bitCount controllerNode = 0" "ignoreCount controllerNode = 0"
    "tempData controllerNode = 0"
    by (simp_all add: controllerNode_def)
  have b6: "of_nat (3 * pulsePeriod - (bitPeriod - pulsePeriod))
      \<le> (25 :: u32) - lastEdge controllerNode"
    by (simp add: controllerNode_def pulsePeriod_def bitPeriod_def)
  have b7: "(25 :: u32) - lastEdge controllerNode < of_nat (3 * pulsePeriod)"
    by (simp add: controllerNode_def pulsePeriod_def)
  have u: "[1 ..< Suc 4] = [1, 2, 3, 4]"
    by (simp add: upt_rec)
  from round_trip [OF a1 a2 a3 a6 a7, of 3 True, THEN conjunct1]
  have x: "shiftLog (lineEdges 3 25 True (sendData 3 5 4)) listenerNode =
     [(1, 0), (2, 1), (3, 2), (4, 5)]"
    unfolding u by (simp add: drop_bit_eq_div)
  from round_trip [OF b1 b2 b3 b6 b7, of 3 False, THEN conjunct2]
  have "length (shiftLog (lineEdges 3 25 False (sendData 3 0xFFFF9C 24)) controllerNode) = 24
    \<and> last (shiftLog (lineEdges 3 25 False (sendData 3 0xFFFF9C 24)) controllerNode) =
       (24, 0xFFFF9C)"
    by simp
  with x show ?thesis by blast
qed

text \<open>
  The two conditions of C1 are needed. A listener that is fed a frame of \<open>dataWidth\<close>
  bits completes an address frame after \<open>addressWidth\<close> of them, finds a mismatch and
  discards the other edges: only four edges are shifted in, and the register never
  holds the value sent. And a decoder whose last accepted edge lies 100 microseconds
  before the first bit slot accepts the edges at the starts of the slots in place of
  the marker edges: a controller fed the four bits \<open>1100\<close> from a low \<open>pinTX\<close> shifts
  in four edges and reads \<open>0000\<close>.
\<close>

theorem round_trip_counterexample:
  "(0xFFFF9C :: u32) < 2 ^ dataWidth
   \<and> bitCount listenerNode = 0 \<and> ignoreCount listenerNode = 0 \<and> tempData listenerNode = 0
   \<and> (25 :: u32) - lastEdge listenerNode = 25
   \<and> shiftLog (lineEdges 3 25 True (sendData 3 0xFFFF9C (of_nat dataWidth))) listenerNode =
       [(1, 1), (2, 3), (3, 7), (4, 15)]
   \<and> (of_nat dataWidth, 0xFFFF9C) \<notin>
       set (shiftLog (lineEdges 3 25 True (sendData 3 0xFFFF9C (of_nat dataWidth))) listenerNode)
   \<and> fst (runEdges (lineEdges 3 25 True (sendData 3 0xFFFF9C (of_nat dataWidth))) listenerNode) =
       listenerNode\<lparr>lastEdge := 1920, ignoreCount := 4\<rparr>
   \<and> (0xC :: u32) < 2 ^ addressWidth
   \<and> bitCount controllerNode = 0 \<and> ignoreCount controllerNode = 0
   \<and> tempData controllerNode = 0
   \<and> (100 :: u32) - lastEdge controllerNode = 100
   \<and> shiftLog (lineEdges 3 100 False (sendData 3 0xC (of_nat addressWidth))) controllerNode =
       [(1, 0), (2, 0), (3, 0), (4, 0)]
   \<and> (of_nat addressWidth, 0xC) \<notin>
       set (shiftLog (lineEdges 3 100 False (sendData 3 0xC (of_nat addressWidth))) controllerNode)"
  by code_simp

section \<open>Properties of the request path\<close>

lemma awaitResponse_exit:
  assumes "runEdges (pollEdges (env k)) s = (s1, out1)"
    and "oneWireMessageReceived s1 \<or> \<not> pollMillis (env k) < timeoutMark"
  shows "awaitResponse timeoutMark env k s out = Some (s1, out @ out1, k)"
  using assms by (subst awaitResponse.simps) auto

lemma awaitResponse_continue:
  assumes "runEdges (pollEdges (env k)) s = (s1, out1)"
    and "\<not> oneWireMessageReceived s1" and "pollMillis (env k) < timeoutMark"
  shows "awaitResponse timeoutMark env k s out = awaitResponse timeoutMark env (Suc k) s1 (out @ out1)"
  using assms by (subst awaitResponse.simps) auto

lemma awaitResponse_returns:
  assumes "\<not> pollMillis (env (k + d)) < timeoutMark"
  shows "\<exists>s1 out1 n. awaitResponse timeoutMark env k s out = Some (s1, out @ out1, n)"
  using assms
proof (induction d arbitrary: k s out)
  case 0
  obtain s1 out1 where r: "runEdges (pollEdges (env k)) s = (s1, out1)"
    by (cases "runEdges (pollEdges (env k)) s")
  from awaitResponse_exit [of env k s s1 out1 timeoutMark out, OF r] 0 show ?case by auto
next
  case (Suc d)
  obtain s1 out1 where r: "runEdges (pollEdges (env k)) s = (s1, out1)"
    by (cases "runEdges (pollEdges (env k)) s")
  show ?case
  proof (cases "\<not> oneWireMessageReceived s1 \<and> pollMillis (env k) < timeoutMark")
    case True
    from Suc.prems have "\<not> pollMillis (env (Suc k + d)) < timeoutMark" by simp
    from Suc.IH [OF this, of s1 "out @ out1"] awaitResponse_continue [of env k s s1 out1 timeoutMark out, OF r] True
    show ?thesis by auto
  next
    case False
    with awaitResponse_exit [of env k s s1 out1 timeoutMark out, OF r] show ?thesis by auto
  qed
qed

lemma wrapped_deadline:
  assumes "2 ^ 32 - 11 < uint (started :: u32)"
  shows "uint (started + 10) = uint started + 10 - 2 ^ 32"
proof -
  have b: "uint started < 2 ^ 32"
    using uint_lt2p [of started] by simp
  have "(uint started + 10) mod 2 ^ 32 = (uint started + 10 - 2 ^ 32) mod 2 ^ 32"
    by (rule minus_mod_self2 [symmetric])
  also have "\<dots> = uint started + 10 - 2 ^ 32"
    using assms b by (intro mod_pos_pos_trivial) simp_all
  finally show ?thesis by (simp add: uint_word_ariths)
qed

text \<open>
  C9. The deadline of line 147 is \<open>millis() + 10\<close> in 32-bit unsigned arithmetic. When
  \<open>millis()\<close> returns more than \<open>2 ^ 32 - 11\<close> there, the deadline wraps around to a
  value below 10. If no message is pending at the first test of the loop condition and
  the clock has not itself wrapped by then, the comparison \<open>millis() < timeoutMark\<close>
  is false at once: the loop body never runs and the call delivers 0.
\<close>

theorem deadline_wraps:
  assumes "2 ^ 32 - 11 < uint started"
    and "runEdges (pollEdges (env 0)) s = (s1, out1)"
    and "\<not> oneWireMessageReceived s1"
    and "started \<le> pollMillis (env 0)"
  shows "uint (started + 10) = uint started + 10 - 2 ^ 32
       \<and> \<not> pollMillis (env 0) < started + 10
       \<and> requestOneWire targetAdd started env s =
           Some (0, s1\<lparr>oneWireMessageReceived := False\<rparr>,
                 [NoInterrupts, DigitalWrite (pinTX s) True, DelayMicroseconds pulsePeriod]
                 @ sendData (pinTX s) (ucast targetAdd) (of_nat addressWidth)
                 @ out1 @ [DigitalWrite 13 True], 0)"
proof (intro conjI)
  show w: "uint (started + 10) = uint started + 10 - 2 ^ 32"
    using assms(1) by (rule wrapped_deadline)
  have "uint started < 2 ^ 32" using uint_lt2p [of started] by simp
  with w assms(1) have "uint (started + 10) < uint started" by simp
  then have "started + 10 < started" by (simp add: word_less_def)
  with assms(4) show n: "\<not> pollMillis (env 0) < started + 10" by simp
  from awaitResponse_exit [of env 0 s s1 out1 "started + 10", OF assms(2)] n
  have "awaitResponse (started + 10) env 0 s
          ([NoInterrupts, DigitalWrite (pinTX s) True, DelayMicroseconds pulsePeriod]
           @ sendData (pinTX s) (ucast targetAdd) (of_nat addressWidth)) =
        Some (s1, ([NoInterrupts, DigitalWrite (pinTX s) True, DelayMicroseconds pulsePeriod]
           @ sendData (pinTX s) (ucast targetAdd) (of_nat addressWidth)) @ out1, 0)"
    by blast
  then show "requestOneWire targetAdd started env s =
           Some (0, s1\<lparr>oneWireMessageReceived := False\<rparr>,
                 [NoInterrupts, DigitalWrite (pinTX s) True, DelayMicroseconds pulsePeriod]
                 @ sendData (pinTX s) (ucast targetAdd) (of_nat addressWidth)
                 @ out1 @ [DigitalWrite 13 True], 0)"
    using assms(3) by (simp add: requestOneWire_def)
qed

theorem deadline_wraps_witness:
  "uint (0xFFFFFFFF + 10 :: u32) = 9
   \<and> \<not> pollMillis (steadyClock 0xFFFFFFFF 0) < 0xFFFFFFFF + 10
   \<and> requestOneWire 5 0xFFFFFFFF (steadyClock 0xFFFFFFFF) controllerNode =
       Some (0, controllerNode,
             [NoInterrupts, DigitalWrite 3 True, DelayMicroseconds 25]
             @ sendData 3 5 4 @ [DigitalWrite 13 True], 0)"
proof -
  have h1: "2 ^ 32 - 11 < uint (0xFFFFFFFF :: u32)" by simp
  have h2: "runEdges (pollEdges (steadyClock 0xFFFFFFFF 0)) controllerNode = (controllerNode, [])"
    by (simp add: steadyClock_def)
  have h3: "\<not> oneWireMessageReceived controllerNode" by (simp add: controllerNode_def)
  have h4: "0xFFFFFFFF \<le> pollMillis (steadyClock 0xFFFFFFFF 0)" by (simp add: steadyClock_def)
  from deadline_wraps [where started = "0xFFFFFFFF" and s = controllerNode
      and env = "steadyClock 0xFFFFFFFF" and targetAdd = 5, OF h1 h2 h3 h4]
  show ?thesis
    by (simp add: controllerNode_def pulsePeriod_def addressWidth_def)
qed

text \<open>
  The condition of C9 on the clock is needed: the two reads of \<open>millis()\<close> at lines
  147 and 148 are separate. When the first returns \<open>0xFFFFFFFF\<close> and the clock ticks
  over before the second, the first test is \<open>0 < 9\<close>, and on a quiet line the loop
  runs nine times before the call delivers 0.
\<close>

theorem deadline_wraps_counterexample:
  "2 ^ 32 - 11 < uint (0xFFFFFFFF :: u32)
   \<and> \<not> oneWireMessageReceived controllerNode
   \<and> pollEdges (steadyClock 0 0) = []
   \<and> uint (0xFFFFFFFF + 10 :: u32) = 9
   \<and> pollMillis (steadyClock 0 0) < 0xFFFFFFFF + 10
   \<and> requestOneWire 5 0xFFFFFFFF (steadyClock 0) controllerNode =
       Some (0, controllerNode,
             [NoInterrupts, DigitalWrite 3 True, DelayMicroseconds 25]
             @ sendData 3 5 4 @ [DigitalWrite 13 True], 9)"
  by (simp add: requestOneWire_def awaitResponse.simps steadyClock_def controllerNode_def
      pulsePeriod_def addressWidth_def)

text \<open>
  C10. Whenever the clock reaches the deadline at some evaluation of the loop
  condition, \<open>requestOneWire\<close> returns, and the last pin event before it returns is
  a write of \<open>HIGH\<close> to pin 13, whatever \<open>pinRX\<close> and \<open>pinTX\<close> are. The same holds
  for every call that returns at all, whether it leaves the loop on the flag or on
  the deadline.
\<close>

theorem pin13_driven:
  assumes "\<not> pollMillis (env n) < started + 10"
  shows "(\<exists>v s1 pre k. requestOneWire targetAdd started env s =
            Some (v, s1, pre @ [DigitalWrite 13 True], k))
       \<and> (\<forall>v s1 out k. requestOneWire targetAdd started env s = Some (v, s1, out, k)
            \<longrightarrow> out \<noteq> [] \<and> last out = DigitalWrite 13 True)"
proof
  from awaitResponse_returns [of env 0 n "started + 10" s] assms
  obtain s1 out1 k where "awaitResponse (started + 10) env 0 s
          ([NoInterrupts, DigitalWrite (pinTX s) True, DelayMicroseconds pulsePeriod]
           @ sendData (pinTX s) (ucast targetAdd) (of_nat addressWidth)) = Some (s1, out1, k)"
    by fastforce
  then show "\<exists>v s1 pre k. requestOneWire targetAdd started env s =
            Some (v, s1, pre @ [DigitalWrite 13 True], k)"
    by (simp add: requestOneWire_def)
  show "\<forall>v s1 out k. requestOneWire targetAdd started env s = Some (v, s1, out, k)
            \<longrightarrow> out \<noteq> [] \<and> last out = DigitalWrite 13 True"
    by (auto simp add: requestOneWire_def Let_def split: option.splits)
qed

theorem pin13_driven_witness:
  "\<not> pollMillis (steadyClock 0 10) < 0 + 10
   \<and> (\<exists>v s1 pre k. requestOneWire 5 0 (steadyClock 0) controllerNode =
          Some (v, s1, pre @ [DigitalWrite 13 True], k))
   \<and> (\<exists>pre. requestOneWire 5 0 (steadyClock 0)
          (controllerNode\<lparr>oneWirePayloadIn := - 100, oneWireMessageReceived := True\<rparr>) =
          Some (- 100, controllerNode\<lparr>oneWirePayloadIn := - 100\<rparr>,
                pre @ [DigitalWrite 13 True], 0))"
proof -
  have h: "\<not> pollMillis (steadyClock 0 10) < 0 + 10" by (simp add: steadyClock_def)
  have "requestOneWire 5 0 (steadyClock 0)
          (controllerNode\<lparr>oneWirePayloadIn := - 100, oneWireMessageReceived := True\<rparr>) =
          Some (- 100, controllerNode\<lparr>oneWirePayloadIn := - 100\<rparr>,
                ([NoInterrupts, DigitalWrite 3 True, DelayMicroseconds 25]
             @ sendData 3 5 4) @ [DigitalWrite 13 True], 0)"
    by (simp add: requestOneWire_def awaitResponse.simps steadyClock_def controllerNode_def
      pulsePeriod_def addressWidth_def)
  with pin13_driven [where env = "steadyClock 0" and n = 10 and started = 0
      and targetAdd = 5 and s = controllerNode, OF h, THEN conjunct1] h
  show ?thesis by blast
qed

text \<open>
  C4. The specification lets \<open>requestOneWire\<close> deliver 0 only when the 10 ms have
  gone by without a response. With the clock at \<open>0xFFFFFFFB\<close> at line 147 and a quiet line,
  the call delivers 0 with no iteration of the wait loop and no millisecond gone by;
  with the clock at 0 and the same quiet line it waits ten iterations, until the
  clock reads 10.
\<close>

theorem immediate_default:
  "requestOneWire 5 0xFFFFFFFB (steadyClock 0xFFFFFFFB) controllerNode =
       Some (0, controllerNode,
             [NoInterrupts, DigitalWrite 3 True, DelayMicroseconds 25]
             @ sendData 3 5 4 @ [DigitalWrite 13 True], 0)
   \<and> pollMillis (steadyClock 0xFFFFFFFB 0) - 0xFFFFFFFB = 0
   \<and> requestOneWire 5 0 (steadyClock 0) controllerNode =
       Some (0, controllerNode,
             [NoInterrupts, DigitalWrite 3 True, DelayMicroseconds 25]
             @ sendData 3 5 4 @ [DigitalWrite 13 True], 10)
   \<and> pollMillis (steadyClock 0 10) - 0 = 10"
  by (simp add: requestOneWire_def awaitResponse.simps steadyClock_def controllerNode_def
      pulsePeriod_def addressWidth_def)

end
